theory Spec2Isabelle
  imports Complex_Main "HOL-Library.Sublist"
begin

section \<open>JavaScript values used by the classifier\<close>

text \<open>
  Texts are JavaScript strings. They are modelled as \<^typ>\<open>string\<close>, one \<^typ>\<open>char\<close> per
  UTF-16 code unit, for the code units below 256 (Basic Latin and Latin-1). On this range
  \<^verbatim>\<open>toLowerCase\<close>, the regular expression classes \<^verbatim>\<open>\w\<close> and \<^verbatim>\<open>\s\<close> and
  \<^verbatim>\<open>split(' ')\<close> are modelled exactly as ECMAScript defines them.
\<close>

definition toLowerChar :: "char \<Rightarrow> char" where
  \<comment> \<open>A-Z and the Latin-1 capitals U+00C0..U+00DE (without the sign U+00D7) move up by 32.\<close>
  "toLowerChar c =
     (let n = (of_char c :: nat)
      in if (65 \<le> n \<and> n \<le> 90) \<or> (192 \<le> n \<and> n \<le> 222 \<and> n \<noteq> 215)
         then char_of (n + 32) else c)"

definition toLowerCase :: "string \<Rightarrow> string" where
  "toLowerCase s = map toLowerChar s"

definition isWordChar :: "char \<Rightarrow> bool" where
  \<comment> \<open>the class \<^verbatim>\<open>\w\<close>, that is \<^verbatim>\<open>[A-Za-z0-9_]\<close>\<close>
  "isWordChar c =
     (let n = (of_char c :: nat)
      in (48 \<le> n \<and> n \<le> 57) \<or> (65 \<le> n \<and> n \<le> 90) \<or> n = 95 \<or> (97 \<le> n \<and> n \<le> 122))"

definition isSpaceChar :: "char \<Rightarrow> bool" where
  \<comment> \<open>the class \<^verbatim>\<open>\s\<close> below 256: TAB, LF, VT, FF, CR, SPACE and NO-BREAK SPACE\<close>
  "isSpaceChar c =
     (let n = (of_char c :: nat)
      in (9 \<le> n \<and> n \<le> 13) \<or> n = 32 \<or> n = 160)"

definition replace_nonword :: "string \<Rightarrow> string" where
  \<comment> \<open>\<^verbatim>\<open>.replace(/[^\w\s]/g, ' ')\<close>\<close>
  "replace_nonword s =
     map (\<lambda>c. if \<not> isWordChar c \<and> \<not> isSpaceChar c then CHR '' '' else c) s"

fun split_js :: "char \<Rightarrow> string \<Rightarrow> string list" where
  \<comment> \<open>\<^verbatim>\<open>s.split(sep)\<close> for a separator of one character; the result is never empty,
      so the last branch of the \<open>case\<close> is never taken.\<close>
  "split_js sep [] = [[]]"
| "split_js sep (c # cs) =
     (if c = sep then [] # split_js sep cs
      else (case split_js sep cs of
              w # ws \<Rightarrow> (c # w) # ws
            | [] \<Rightarrow> [[c]]))"

fun includes_js :: "string \<Rightarrow> string \<Rightarrow> bool" where
  \<comment> \<open>\<^verbatim>\<open>s.includes(w)\<close>: \<open>w\<close> starts at some position of \<open>s\<close>\<close>
  "includes_js [] w = (w = [])"
| "includes_js (c # cs) w = (prefix w (c # cs) \<or> includes_js cs w)"

datatype jsnum = Num real | NaN

text \<open>
  A JavaScript number is a real or NaN; the rounding of IEEE doubles and the infinities are
  left out. \<^verbatim>\<open>undefined\<close>, read from an array past its end, becomes NaN in arithmetic.
\<close>

fun js_times :: "jsnum \<Rightarrow> jsnum \<Rightarrow> jsnum" where
  "js_times (Num a) (Num b) = Num (a * b)"
| "js_times _ _ = NaN"

fun js_gt :: "jsnum \<Rightarrow> jsnum \<Rightarrow> bool" where
  "js_gt (Num a) (Num b) = (b < a)"
| "js_gt _ _ = False"

definition js_index :: "jsnum list \<Rightarrow> nat \<Rightarrow> jsnum" where
  \<comment> \<open>\<^verbatim>\<open>a[i]\<close> of a typed array, used as a number\<close>
  "js_index a i = (if i < length a then a ! i else NaN)"

section \<open>The vocabulary (dictionary.js)\<close>

text \<open>
  Modelled from the spec: the module \<^verbatim>\<open>dictionary.js\<close> (the constants START, UNKNOWN, PAD
  and the table LOOKUP) is imported by the model code and is not among the sources. It is
  a parameter of every definition that reads it: three integers and a partial map from
  words to token ids. A read \<^verbatim>\<open>DICTIONARY.LOOKUP[word]\<close> that would find a property
  inherited from \<^verbatim>\<open>Object.prototype\<close> is outside this model.
\<close>

record dictionary =
  START :: int
  UNKNOWN :: int
  PAD :: int
  LOOKUP :: "string \<rightharpoonup> int"

section \<open>The tokenizer (model.js)\<close>

definition ENCODING_LENGTH :: nat where
  "ENCODING_LENGTH = 21"

fun encode_words :: "dictionary \<Rightarrow> int list \<Rightarrow> string list \<Rightarrow> int list" where
  \<comment> \<open>the \<^verbatim>\<open>for\<close> loop of \<^verbatim>\<open>tokenize\<close>\<close>
  "encode_words D returnArray [] = returnArray"
| "encode_words D returnArray (word # wordArray) =
     encode_words D
       (returnArray @ [case LOOKUP D word of None \<Rightarrow> UNKNOWN D | Some encoding \<Rightarrow> encoding])
       wordArray"

function pad_loop :: "dictionary \<Rightarrow> int list \<Rightarrow> int list" where
  \<comment> \<open>the \<^verbatim>\<open>while\<close> loop of \<^verbatim>\<open>tokenize\<close>\<close>
  "pad_loop D returnArray =
     (if length returnArray < ENCODING_LENGTH then pad_loop D (returnArray @ [PAD D])
      else returnArray)"
  by pat_completeness auto
termination
  by (relation "measure (\<lambda>(D, returnArray). ENCODING_LENGTH - length returnArray)") auto

declare pad_loop.simps [simp del]

definition tokenize_array :: "dictionary \<Rightarrow> string list \<Rightarrow> int list" where
  \<comment> \<open>\<^verbatim>\<open>returnArray\<close> at the end of \<^verbatim>\<open>tokenize\<close>, before it is wrapped in a tensor\<close>
  "tokenize_array D wordArray = pad_loop D (encode_words D [START D] wordArray)"

definition sentence_words :: "string \<Rightarrow> string list" where
  \<comment> \<open>\<^verbatim>\<open>inputText.toLowerCase().replace(/[^\w\s]/g, ' ').split(' ')\<close>\<close>
  "sentence_words inputText = split_js CHR '' '' (replace_nonword (toLowerCase inputText))"

definition encode :: "dictionary \<Rightarrow> string \<Rightarrow> int list" where
  \<comment> \<open>the row of the tensor that \<^verbatim>\<open>loadAndPredict\<close> passes to \<^verbatim>\<open>model.predict\<close>\<close>
  "encode D inputText = tokenize_array D (take 20 (sentence_words inputText))"

section \<open>The model handle and loadAndPredict (model.js)\<close>

datatype exn = LoadFailed | PredictFailed | TypeError | ReadyFailed | FetchFailed

text \<open>
  A loaded model is the number of tensors that hold its weights, which
  \<^verbatim>\<open>tf.loadLayersModel\<close> creates when the load succeeds, and what
  \<^verbatim>\<open>model.predict(t).dataSync()\<close> yields for the rows of the input tensor \<open>t\<close>: the
  values of the output tensor, or the exception that \<^verbatim>\<open>predict\<close> throws. Reading the
  values with \<^verbatim>\<open>dataSync\<close> is taken not to fail. Both are properties of the model
  artifact, which the code does not decide.
\<close>

datatype layers_model =
  LayersModel (weightTensors: nat) (predict: "int list list \<Rightarrow> exn + jsnum list")

record YouTubeComment =
  comment_id :: string
  comment_text :: string
  author :: string
  publishedAt :: string
  likeCount :: int

text \<open>
  What the code does not decide: the outcome of the \<open>k\<close>-th call of
  \<^verbatim>\<open>tf.loadLayersModel(MODEL_JSON_URL)\<close> (counted from 0), of \<^verbatim>\<open>tf.ready()\<close> and of
  \<^verbatim>\<open>fetchYouTubeComments(videoId)\<close>.
\<close>

record environment =
  loadLayersModel :: "nat \<Rightarrow> exn + layers_model"
  tf_ready :: "exn + unit"
  fetchYouTubeComments :: "string \<Rightarrow> exn + YouTubeComment list"

text \<open>
  The state shared by all calls: the module variable \<^verbatim>\<open>model\<close> (\<open>None\<close> is
  \<^verbatim>\<open>undefined\<close>), the number of calls of \<^verbatim>\<open>tf.loadLayersModel\<close> made so far, and the
  number of tensors that were created and not disposed (\<^verbatim>\<open>tf.memory().numTensors\<close>).
\<close>

record world =
  model :: "layers_model option"
  loadCalls :: nat
  numTensors :: nat

definition initial_world :: world where
  "initial_world = \<lparr>model = None, loadCalls = 0, numTensors = 0\<rparr>"

definition tensor2d :: "int list list \<Rightarrow> world \<Rightarrow> int list list \<times> world" where
  \<comment> \<open>\<^verbatim>\<open>tf.tensor2d(values)\<close> creates one tensor\<close>
  "tensor2d values w = (values, w\<lparr>numTensors := numTensors w + 1\<rparr>)"

definition tokenize :: "dictionary \<Rightarrow> string list \<Rightarrow> world \<Rightarrow> int list list \<times> world" where
  "tokenize D wordArray w = tensor2d [tokenize_array D wordArray] w"

definition predict_dataSync ::
  "layers_model \<Rightarrow> int list list \<Rightarrow> world \<Rightarrow> (exn + jsnum list) \<times> world" where
  \<comment> \<open>\<^verbatim>\<open>model.predict(input)\<close> creates the output tensor; \<^verbatim>\<open>dataSync\<close> reads it. Nothing
      is disposed.\<close>
  "predict_dataSync m input w =
     (case predict m input of
        Inl e \<Rightarrow> (Inl e, w)
      | Inr dataArray \<Rightarrow> (Inr dataArray, w\<lparr>numTensors := numTensors w + 1\<rparr>))"

definition loadAndPredict_rest :: "dictionary \<Rightarrow> string \<Rightarrow> world \<Rightarrow> (exn + jsnum) \<times> world" where
  \<comment> \<open>\<^verbatim>\<open>loadAndPredict\<close> after its \<^verbatim>\<open>if\<close>: lines 25 to 45\<close>
  "loadAndPredict_rest D inputText w =
     (let lowercaseSentenceArray = sentence_words inputText;
          lowercaseSentenceArray = take 20 lowercaseSentenceArray
      in case model w of
           None \<Rightarrow> (Inl TypeError, w)
         | Some m \<Rightarrow>
             (let (input, w1) = tokenize D lowercaseSentenceArray w
              in case predict_dataSync m input w1 of
                   (Inl e, w2) \<Rightarrow> (Inl e, w2)
                 | (Inr dataArray, w2) \<Rightarrow>
                     (let toxicityLevel = js_times (js_index dataArray 1) (Num 100)
                      in (Inr toxicityLevel, w2))))"

text \<open>
  \<^verbatim>\<open>loadAndPredict\<close> is an async function with one \<^verbatim>\<open>await\<close>, inside the \<^verbatim>\<open>if\<close>. A call
  runs in two steps. \<open>loadAndPredict_start\<close> runs up to the \<^verbatim>\<open>await\<close>: with the model
  defined it runs to the end (\<open>Inl\<close> of the outcome); otherwise it calls
  \<^verbatim>\<open>tf.loadLayersModel\<close> and is suspended on that call (\<open>Inr\<close> of the call's number).
  \<open>loadAndPredict_resume\<close> runs from the settled load to the end. Other code can run
  between the two steps.
\<close>

definition loadAndPredict_start ::
  "dictionary \<Rightarrow> string \<Rightarrow> world \<Rightarrow> (((exn + jsnum) + nat) \<times> world)" where
  "loadAndPredict_start D inputText w =
     (case model w of
        None \<Rightarrow> (Inr (loadCalls w), w\<lparr>loadCalls := loadCalls w + 1\<rparr>)
      | Some m \<Rightarrow> (case loadAndPredict_rest D inputText w of (r, w') \<Rightarrow> (Inl r, w')))"

definition loadAndPredict_resume ::
  "environment \<Rightarrow> dictionary \<Rightarrow> string \<Rightarrow> nat \<Rightarrow> world \<Rightarrow> (exn + jsnum) \<times> world" where
  "loadAndPredict_resume E D inputText k w =
     (case loadLayersModel E k of
        Inl e \<Rightarrow> (Inl e, w)
      | Inr m \<Rightarrow>
          loadAndPredict_rest D inputText
            (w\<lparr>model := Some m, numTensors := numTensors w + weightTensors m\<rparr>))"

definition loadAndPredict ::
  "environment \<Rightarrow> dictionary \<Rightarrow> string \<Rightarrow> world \<Rightarrow> (exn + jsnum) \<times> world" where
  \<comment> \<open>a call that is awaited before anything else runs\<close>
  "loadAndPredict E D inputText w =
     (case loadAndPredict_start D inputText w of
        (Inl r, w') \<Rightarrow> (r, w')
      | (Inr k, w') \<Rightarrow> loadAndPredict_resume E D inputText k w')"

section \<open>The classifier (App.tsx, YouTubeComments.tsx)\<close>

record ClassificationResult =
  isToxic :: bool
  toxicityScore :: jsnum

definition TOXIC_WORDS :: "string list" where
  "TOXIC_WORDS =
     [''spam'', ''scam'', ''hate'', ''idiot'', ''stupid'', ''dumb'', ''fool'',
      ''jerk'', ''racist'', ''kill'', ''die'', ''attack'', ''threat'', ''abuse'',
      ''offensive'', ''violent'', ''nasty'', ''horrible'', ''terrible'']"

definition checkToxicityFallback :: "string \<Rightarrow> bool" where
  "checkToxicityFallback text_in =
     (let lowerText = toLowerCase text_in
      in list_ex (\<lambda>word. includes_js lowerText word) TOXIC_WORDS)"

definition checkToxicityWithModel ::
  "environment \<Rightarrow> dictionary \<Rightarrow> string \<Rightarrow> world \<Rightarrow> (exn + ClassificationResult) \<times> world" where
  \<comment> \<open>YouTubeComments.tsx; \<open>Inl\<close> would be an exception leaving the function\<close>
  "checkToxicityWithModel E D text_in w =
     (case loadAndPredict E D text_in w of
        (Inr score, w') \<Rightarrow>
          (Inr \<lparr>isToxic = js_gt score (Num 50), toxicityScore = score\<rparr>, w')
      | (Inl e, w') \<Rightarrow>
          (Inr \<lparr>isToxic = checkToxicityFallback text_in, toxicityScore = Num 0\<rparr>, w'))"

definition checkToxicityWithModel_App ::
  "environment \<Rightarrow> dictionary \<Rightarrow> bool \<Rightarrow> string \<Rightarrow> world \<Rightarrow>
     (exn + ClassificationResult) \<times> world" where
  \<comment> \<open>App.tsx; \<open>model_app\<close> is the component's state \<^verbatim>\<open>model\<close>, a boolean\<close>
  "checkToxicityWithModel_App E D model_app text_in w =
     (if \<not> model_app
      then (Inr \<lparr>isToxic = checkToxicityFallback text_in, toxicityScore = Num 0\<rparr>, w)
      else (case loadAndPredict E D text_in w of
              (Inr score, w') \<Rightarrow>
                (Inr \<lparr>isToxic = js_gt score (Num 50), toxicityScore = score\<rparr>, w')
            | (Inl e, w') \<Rightarrow>
                (Inr \<lparr>isToxic = checkToxicityFallback text_in, toxicityScore = Num 0\<rparr>, w')))"

record app_state =
  model_app :: bool
  modelLoading :: bool
  modelError :: "string option"

definition initial_app :: app_state where
  "initial_app = \<lparr>model_app = False, modelLoading = True, modelError = None\<rparr>"

definition loadModel ::
  "environment \<Rightarrow> dictionary \<Rightarrow> app_state \<Rightarrow> world \<Rightarrow> app_state \<times> world" where
  \<comment> \<open>the effect that App.tsx runs once, when the component is mounted\<close>
  "loadModel E D a w =
     (let failed = a\<lparr>modelError :=
                        Some ''Failed to load custom TensorFlow model. Using fallback detection.'',
                      modelLoading := False\<rparr>
      in case tf_ready E of
           Inl e \<Rightarrow> (failed, w)
         | Inr u \<Rightarrow>
             (case loadAndPredict E D ''test'' w of
                (Inl e, w') \<Rightarrow> (failed, w')
              | (Inr r, w') \<Rightarrow> (a\<lparr>model_app := True, modelLoading := False\<rparr>, w')))"

section \<open>The batch analyzer (YouTubeComments.tsx)\<close>

record AnalyzedComment = YouTubeComment +
  isToxic_c :: bool
  toxicityScore_c :: "jsnum option"
  isAnalyzing :: "bool option"

definition analyzing :: "YouTubeComment \<Rightarrow> AnalyzedComment" where
  \<comment> \<open>\<^verbatim>\<open>{...comment, isAnalyzing: true, isToxic: false}\<close>\<close>
  "analyzing c =
     \<lparr>comment_id = comment_id c, comment_text = comment_text c, author = author c,
      publishedAt = publishedAt c, likeCount = likeCount c,
      isToxic_c = False, toxicityScore_c = None, isAnalyzing = Some True\<rparr>"

definition analyzed :: "YouTubeComment \<Rightarrow> ClassificationResult \<Rightarrow> AnalyzedComment" where
  "analyzed c result =
     \<lparr>comment_id = comment_id c, comment_text = comment_text c, author = author c,
      publishedAt = publishedAt c, likeCount = likeCount c,
      isToxic_c = isToxic result, toxicityScore_c = Some (toxicityScore result),
      isAnalyzing = Some False\<rparr>"

text \<open>
  The component's state, and \<open>emitted\<close>: every value passed to \<^verbatim>\<open>setComments\<close> so far,
  the oldest first.
\<close>

record view =
  comments :: "AnalyzedComment list"
  loading :: bool
  error :: "string option"
  emitted :: "AnalyzedComment list list"

definition initial_view :: view where
  "initial_view = \<lparr>comments = [], loading = True, error = None, emitted = []\<rparr>"

definition setComments :: "AnalyzedComment list \<Rightarrow> view \<Rightarrow> view" where
  "setComments cs v = v\<lparr>comments := cs, emitted := emitted v @ [cs]\<rparr>"

fun analyze_loop ::
  "environment \<Rightarrow> dictionary \<Rightarrow> YouTubeComment list \<Rightarrow> YouTubeComment list \<Rightarrow>
     AnalyzedComment list \<Rightarrow> view \<Rightarrow> world \<Rightarrow> (exn + unit) \<times> view \<times> world" where
  \<comment> \<open>the \<^verbatim>\<open>for ... of fetchedComments\<close> loop; the fourth argument is what is left to visit\<close>
  "analyze_loop E D fetchedComments [] analyzedComments v w = (Inr (), v, w)"
| "analyze_loop E D fetchedComments (comment # rest) analyzedComments v w =
     (case checkToxicityWithModel E D (comment_text comment) w of
        (Inl e, w') \<Rightarrow> (Inl e, v, w')
      | (Inr result, w') \<Rightarrow>
          (let analyzedComments = analyzedComments @ [analyzed comment result];
               v' = setComments
                      (analyzedComments @
                         map analyzing (drop (length analyzedComments) fetchedComments)) v
           in analyze_loop E D fetchedComments rest analyzedComments v' w'))"

definition loadComments ::
  "environment \<Rightarrow> dictionary \<Rightarrow> string \<Rightarrow> view \<Rightarrow> world \<Rightarrow> view \<times> world" where
  "loadComments E D videoId v w =
     (let v1 = v\<lparr>loading := True\<rparr>;
          failed = (\<lambda>v. v\<lparr>error := Some ''Failed to load comments. Please try again.''\<rparr>)
      in case fetchYouTubeComments E videoId of
           Inl e \<Rightarrow> ((failed v1)\<lparr>loading := False\<rparr>, w)
         | Inr fetchedComments \<Rightarrow>
             (let v2 = setComments (map analyzing fetchedComments) v1
              in case analyze_loop E D fetchedComments fetchedComments [] v2 w of
                   (Inl e, v3, w') \<Rightarrow> ((failed v3)\<lparr>loading := False\<rparr>, w')
                 | (Inr u, v3, w') \<Rightarrow> (v3\<lparr>loading := False\<rparr>, w')))"

section \<open>Notions used to state the properties\<close>

definition token_of :: "dictionary \<Rightarrow> string \<Rightarrow> int" where
  \<comment> \<open>the token of one word: its dictionary id, or UNKNOWN\<close>
  "token_of D word = (case LOOKUP D word of None \<Rightarrow> UNKNOWN D | Some encoding \<Rightarrow> encoding)"

fun join_js :: "char \<Rightarrow> string list \<Rightarrow> string" where
  \<comment> \<open>\<^verbatim>\<open>words.join(sep)\<close>, the inverse of \<^verbatim>\<open>split(sep)\<close>\<close>
  "join_js sep [] = []"
| "join_js sep [w] = w"
| "join_js sep (w # v # ws) = w @ sep # join_js sep (v # ws)"

definition ascii_alnum :: "char \<Rightarrow> bool" where
  \<comment> \<open>an ASCII letter or digit\<close>
  "ascii_alnum c =
     (let n = (of_char c :: nat)
      in (48 \<le> n \<and> n \<le> 57) \<or> (65 \<le> n \<and> n \<le> 90) \<or> (97 \<le> n \<and> n \<le> 122))"

definition model_in_use :: "environment \<Rightarrow> world \<Rightarrow> layers_model option" where
  \<comment> \<open>the model that a call of \<^verbatim>\<open>loadAndPredict\<close> started in \<open>w\<close> predicts with: the one
      already loaded, or else the one its own load yields; \<open>None\<close> when that load fails\<close>
  "model_in_use E w =
     (case model w of
        Some m \<Rightarrow> Some m
      | None \<Rightarrow> (case loadLayersModel E (loadCalls w) of Inl e \<Rightarrow> None | Inr m \<Rightarrow> Some m))"

fun classify_all ::
  "environment \<Rightarrow> dictionary \<Rightarrow> string list \<Rightarrow> world \<Rightarrow>
     ClassificationResult list \<times> world" where
  \<comment> \<open>texts classified one after the other, each in the state the one before it left\<close>
  "classify_all E D [] w = ([], w)"
| "classify_all E D (t # ts) w =
     (case checkToxicityWithModel E D t w of
        (Inl e, w') \<Rightarrow> ([], w')
      | (Inr r, w') \<Rightarrow> (case classify_all E D ts w' of (rs, w'') \<Rightarrow> (r # rs, w'')))"

definition snapshot ::
  "YouTubeComment list \<Rightarrow> ClassificationResult list \<Rightarrow> nat \<Rightarrow> AnalyzedComment list" where
  \<comment> \<open>the first \<open>k\<close> items with their results, the others still analyzing\<close>
  "snapshot items results k =
     map2 analyzed (take k items) (take k results) @ map analyzing (drop k items)"

section \<open>Sample inputs\<close>

text \<open>
  Modelled from the spec: a vocabulary as the spec describes one, three control tokens
  distinct from each other and from every word id. It stands for the absent
  \<^verbatim>\<open>dictionary.js\<close> where a property is evaluated on a concrete input.
\<close>

definition example_dictionary :: dictionary where
  "example_dictionary =
     \<lparr>START = 1, UNKNOWN = 2, PAD = 0,
      LOOKUP = map_of [(''i'', 3), (''will'', 4), (''you'', 5), (''don'', 6), (''t'', 7)]\<rparr>"

definition example_model :: layers_model where
  \<comment> \<open>a model of two weight tensors that gives every input the toxicity probability 0.9\<close>
  "example_model = LayersModel 2 (\<lambda>input. Inr [Num (1 / 10), Num (9 / 10)])"

definition example_comments :: "YouTubeComment list" where
  "example_comments =
     [\<lparr>comment_id = ''c1'', comment_text = ''I will kill you'', author = ''a'',
        publishedAt = ''2024-01-01'', likeCount = 0\<rparr>,
      \<lparr>comment_id = ''c2'', comment_text = ''Nice video'', author = ''b'',
        publishedAt = ''2024-01-02'', likeCount = 3\<rparr>]"

definition online :: environment where
  \<comment> \<open>every load succeeds\<close>
  "online =
     \<lparr>loadLayersModel = (\<lambda>k. Inr example_model), tf_ready = Inr (),
      fetchYouTubeComments = (\<lambda>videoId. Inr example_comments)\<rparr>"

definition offline :: environment where
  \<comment> \<open>every load fails\<close>
  "offline =
     \<lparr>loadLayersModel = (\<lambda>k. Inl LoadFailed), tf_ready = Inr (),
      fetchYouTubeComments = (\<lambda>videoId. Inr example_comments)\<rparr>"

definition text_tab :: string where
  \<comment> \<open>\<^verbatim>\<open>"a\tb"\<close>\<close>
  "text_tab = [CHR ''a'', CHR 0x09, CHR ''b'']"

definition text_dont :: string where
  \<comment> \<open>\<^verbatim>\<open>"Don't  stop"\<close>, with two spaces\<close>
  "text_dont = ''Don'' @ [CHR 0x27] @ ''t  stop''"

section \<open>Properties of the tokenizer\<close>

lemma encode_words_map:
  "encode_words D acc ws = acc @ map (token_of D) ws"
  by (induction ws arbitrary: acc) (simp_all add: token_of_def)

lemma pad_loop_replicate:
  "pad_loop D xs = xs @ replicate (ENCODING_LENGTH - length xs) (PAD D)"
proof (induction D xs rule: pad_loop.induct)
  case (1 D xs)
  show ?case
  proof (cases "length xs < ENCODING_LENGTH")
    case True
    then have "ENCODING_LENGTH - length xs = Suc (ENCODING_LENGTH - length (xs @ [PAD D]))"
      by simp
    with True "1.IH" show ?thesis
      by (subst pad_loop.simps) simp
  next
    case False
    then show ?thesis
      by (subst pad_loop.simps) simp
  qed
qed

lemma tokenize_array_eq:
  "tokenize_array D ws =
     START D # map (token_of D) ws @ replicate (20 - length ws) (PAD D)"
  by (simp add: tokenize_array_def encode_words_map pad_loop_replicate ENCODING_LENGTH_def)

lemma split_js_not_Nil: "split_js sep s \<noteq> []"
  by (induction s) (auto split: list.splits)

lemma join_js_Cons_Cons: "join_js sep ((c # w) # ws) = c # join_js sep (w # ws)"
  by (cases ws) simp_all

lemma join_js_split_js: "join_js sep (split_js sep s) = s"
proof (induction s)
  case Nil
  show ?case by simp
next
  case (Cons c cs)
  obtain w ws where sp: "split_js sep cs = w # ws"
    using split_js_not_Nil [of sep cs] by (cases "split_js sep cs") auto
  from Cons.IH show ?case
    by (simp add: sp join_js_Cons_Cons)
qed

lemma split_js_no_sep: "w \<in> set (split_js sep s) \<Longrightarrow> sep \<notin> set w"
proof (induction s arbitrary: w)
  case Nil
  then show ?case by simp
next
  case (Cons c cs)
  obtain v vs where sp: "split_js sep cs = v # vs"
    using split_js_not_Nil [of sep cs] by (cases "split_js sep cs") auto
  from Cons show ?case
    by (auto simp: sp split: if_splits)
qed

lemma length_split_js: "length (split_js sep s) = Suc (count_list s sep)"
proof (induction s)
  case Nil
  show ?case by simp
next
  case (Cons c cs)
  obtain v vs where sp: "split_js sep cs = v # vs"
    using split_js_not_Nil [of sep cs] by (cases "split_js sep cs") auto
  from Cons.IH show ?case
    by (simp add: sp)
qed

lemma of_char_underscore: "(of_char c = (95::nat)) = (c = CHR ''_'')"
proof -
  have "of_char (CHR ''_'') = (95::nat)"
    by simp
  then have "(of_char c = (95::nat)) = (of_char c = (of_char (CHR ''_'') :: nat))"
    by simp
  also have "\<dots> = (c = CHR ''_'')"
    by (rule of_char_eq_iff)
  finally show ?thesis .
qed

lemma isWordChar_iff: "isWordChar c \<longleftrightarrow> ascii_alnum c \<or> c = CHR ''_''"
  unfolding isWordChar_def ascii_alnum_def Let_def of_char_underscore by blast

lemma replace_nonword_nth:
  "i < length s \<Longrightarrow>
   replace_nonword s ! i =
     (if isWordChar (s ! i) \<or> isSpaceChar (s ! i) then s ! i else CHR '' '')"
  by (simp add: replace_nonword_def)

text \<open>
  \<^bold>\<open>C2.\<close> For every input text, the empty one included, the encoding that
  \<^verbatim>\<open>loadAndPredict\<close> passes to the model is a row of exactly 21 integers: START, then for
  each of the first 20 words at most its dictionary id or UNKNOWN, then PAD up to length
  21. Words after the 20th do not reach \<^verbatim>\<open>tokenize\<close>. The words are those of
  \<open>sentence_words\<close>.
\<close>

theorem C2_encode_shape:
  "length (encode D inputText) = 21 \<and>
   encode D inputText =
     START D # map (token_of D) (take 20 (sentence_words inputText)) @
       replicate (20 - length (take 20 (sentence_words inputText))) (PAD D) \<and>
   fst (tokenize D (take 20 (sentence_words inputText)) w) = [encode D inputText]"
  by (simp add: encode_def tokenize_array_eq tokenize_def tensor2d_def)

theorem C2_encode_shape_witness:
  "encode example_dictionary ''I will  kill you'' =
     [1, 3, 4, 2, 2, 5, 0, 0, 0, 0, 0, 0, 0, 0, 0, 0, 0, 0, 0, 0, 0] \<and>
   length (encode example_dictionary ''I will  kill you'') = 21"
proof -
  have ws: "take 20 (sentence_words ''I will  kill you'') = [''i'', ''will'', '''', ''kill'', ''you'']"
    by code_simp
  have ts: "map (token_of example_dictionary) [''i'', ''will'', '''', ''kill'', ''you''] =
              [3, 4, 2, 2, 5]"
    by code_simp
  from C2_encode_shape [of example_dictionary "''I will  kill you''" initial_world]
  show ?thesis
    unfolding ws ts by (simp add: example_dictionary_def numeral_eq_Suc)
qed

text \<open>
  \<^bold>\<open>C6\<close>, as the code has it. The text is lower-cased; then every character that is
  neither an ASCII letter or digit, nor an underscore, nor whitespace becomes one space,
  while ASCII letters, digits and whitespace stay as they are (what happens to an
  underscore is left open here). The result is split at the space character U+0020
  only: joining the words with single spaces gives the normalized text back and no word
  contains a space, so a tab or a newline stays inside its word and two adjacent spaces
  give an empty word. An empty word that is no key of the vocabulary is encoded as
  UNKNOWN.
\<close>

theorem C6_normalize_and_split:
  "length (replace_nonword (toLowerCase t)) = length t \<and>
   (\<forall>i<length t.
      (ascii_alnum (toLowerChar (t ! i)) \<or> isSpaceChar (toLowerChar (t ! i)) \<longrightarrow>
         replace_nonword (toLowerCase t) ! i = toLowerChar (t ! i)) \<and>
      (\<not> ascii_alnum (toLowerChar (t ! i)) \<and> toLowerChar (t ! i) \<noteq> CHR ''_'' \<and>
       \<not> isSpaceChar (toLowerChar (t ! i)) \<longrightarrow>
         replace_nonword (toLowerCase t) ! i = CHR '' '')) \<and>
   join_js CHR '' '' (sentence_words t) = replace_nonword (toLowerCase t) \<and>
   (\<forall>w \<in> set (sentence_words t). CHR '' '' \<notin> set w) \<and>
   length (sentence_words t) = Suc (count_list (replace_nonword (toLowerCase t)) CHR '' '') \<and>
   (LOOKUP D [] = None \<longrightarrow> token_of D [] = UNKNOWN D)"
proof (intro conjI allI impI ballI)
  show "length (replace_nonword (toLowerCase t)) = length t"
    by (simp add: replace_nonword_def toLowerCase_def)
  show "join_js CHR '' '' (sentence_words t) = replace_nonword (toLowerCase t)"
    by (simp add: sentence_words_def join_js_split_js)
  show "length (sentence_words t) = Suc (count_list (replace_nonword (toLowerCase t)) CHR '' '')"
    by (simp add: sentence_words_def length_split_js)
  show "CHR '' '' \<notin> set w" if "w \<in> set (sentence_words t)" for w
    using that by (simp add: sentence_words_def split_js_no_sep)
  show "token_of D [] = UNKNOWN D" if "LOOKUP D [] = None"
    using that by (simp add: token_of_def)
  show "replace_nonword (toLowerCase t) ! i = toLowerChar (t ! i)"
    if "i < length t"
      "ascii_alnum (toLowerChar (t ! i)) \<or> isSpaceChar (toLowerChar (t ! i))" for i
    using that by (auto simp: replace_nonword_nth toLowerCase_def isWordChar_iff)
  show "replace_nonword (toLowerCase t) ! i = CHR '' ''"
    if "i < length t"
      "\<not> ascii_alnum (toLowerChar (t ! i)) \<and> toLowerChar (t ! i) \<noteq> CHR ''_'' \<and>
       \<not> isSpaceChar (toLowerChar (t ! i))" for i
    using that by (auto simp: replace_nonword_nth toLowerCase_def isWordChar_iff)
qed

text \<open>
  The claim as stated fails on \<^verbatim>\<open>"a\tb"\<close>: the tab is whitespace, and the text is one
  word, not the two words \<^verbatim>\<open>"a"\<close> and \<^verbatim>\<open>"b"\<close>.
\<close>

theorem C6_tab_counterexample:
  "isSpaceChar (CHR 0x09) \<and> sentence_words text_tab = [text_tab] \<and>
   sentence_words text_tab \<noteq> [''a'', ''b'']"
  by code_simp

theorem C6_normalize_and_split_witness:
  "sentence_words text_dont = [''don'', ''t'', '''', ''stop''] \<and>
   replace_nonword (toLowerCase text_dont) ! 3 = CHR '' '' \<and>
   join_js CHR '' '' (sentence_words text_dont) = replace_nonword (toLowerCase text_dont) \<and>
   token_of example_dictionary [] = UNKNOWN example_dictionary"
proof -
  have a: "sentence_words text_dont = [''don'', ''t'', '''', ''stop'']"
    by code_simp
  have b: "(3::nat) < length text_dont"
    by code_simp
  have c: "\<not> ascii_alnum (toLowerChar (text_dont ! 3)) \<and>
           toLowerChar (text_dont ! 3) \<noteq> CHR ''_'' \<and>
           \<not> isSpaceChar (toLowerChar (text_dont ! 3))"
    by code_simp
  have d: "LOOKUP example_dictionary [] = None"
    by (simp add: example_dictionary_def)
  from C6_normalize_and_split [of text_dont example_dictionary] a b c d show ?thesis
    by blast
qed

section \<open>Properties of the classifier\<close>

lemma includes_js_sublist: "includes_js s w \<longleftrightarrow> sublist w s"
  by (induction s) (auto simp: sublist_Cons_right)

lemma checkToxicityFallback_iff:
  "checkToxicityFallback t \<longleftrightarrow> (\<exists>word \<in> set TOXIC_WORDS. sublist word (toLowerCase t))"
  by (simp add: checkToxicityFallback_def list_ex_iff includes_js_sublist)

lemma checkToxicityWithModel_returns:
  "\<exists>r. fst (checkToxicityWithModel E D t w) = Inr r"
  by (simp add: checkToxicityWithModel_def split: prod.splits sum.splits)

lemma checkToxicityWithModel_App_returns:
  "\<exists>r. fst (checkToxicityWithModel_App E D b t w) = Inr r"
  by (simp add: checkToxicityWithModel_App_def split: prod.splits sum.splits)

lemma loadAndPredict_loaded:
  "model w = Some m \<Longrightarrow>
   loadAndPredict E D t w =
     (case predict m [encode D t] of
        Inl e \<Rightarrow> (Inl e, w\<lparr>numTensors := numTensors w + 1\<rparr>)
      | Inr v \<Rightarrow> (Inr (js_times (js_index v 1) (Num 100)), w\<lparr>numTensors := numTensors w + 2\<rparr>))"
  by (simp add: loadAndPredict_def loadAndPredict_start_def loadAndPredict_rest_def
      tokenize_def tensor2d_def predict_dataSync_def encode_def split: sum.splits)

lemma loadAndPredict_unloaded:
  "model w = None \<Longrightarrow>
   loadAndPredict E D t w =
     (case loadLayersModel E (loadCalls w) of
        Inl e \<Rightarrow> (Inl e, w\<lparr>loadCalls := loadCalls w + 1\<rparr>)
      | Inr m \<Rightarrow>
         (case predict m [encode D t] of
            Inl e \<Rightarrow> (Inl e, w\<lparr>model := Some m, loadCalls := loadCalls w + 1,
                                numTensors := numTensors w + weightTensors m + 1\<rparr>)
          | Inr v \<Rightarrow> (Inr (js_times (js_index v 1) (Num 100)),
                       w\<lparr>model := Some m, loadCalls := loadCalls w + 1,
                         numTensors := numTensors w + weightTensors m + 2\<rparr>)))"
  by (simp add: loadAndPredict_def loadAndPredict_start_def loadAndPredict_resume_def
      loadAndPredict_rest_def tokenize_def tensor2d_def predict_dataSync_def encode_def
      split: sum.splits)

lemma loadAndPredict_score:
  assumes "model_in_use E w = Some m" and "predict m [encode D t] = Inr v"
  shows "fst (loadAndPredict E D t w) = Inr (js_times (js_index v 1) (Num 100))"
proof (cases "model w")
  case None
  with assms show ?thesis
    by (auto simp: loadAndPredict_unloaded model_in_use_def split: sum.splits)
next
  case (Some m')
  with assms show ?thesis
    by (simp add: loadAndPredict_loaded model_in_use_def)
qed

lemma loadAndPredict_offline:
  "loadAndPredict offline D t initial_world = (Inl LoadFailed, initial_world\<lparr>loadCalls := 1\<rparr>)"
  by (simp add: loadAndPredict_unloaded initial_world_def offline_def)

text \<open>
  \<^bold>\<open>C1.\<close> Both versions of \<^verbatim>\<open>checkToxicityWithModel\<close> return a result for every text and
  in every state, never an exception. When \<^verbatim>\<open>loadAndPredict\<close> rejects (the load or the
  inference failed), the result has the score 0 and is toxic exactly when the lower-cased
  text contains a word of \<open>TOXIC_WORDS\<close> as a substring. The version of App.tsx gives the
  same result, without a call of \<^verbatim>\<open>loadAndPredict\<close>, while its flag \<^verbatim>\<open>model\<close> is false.
\<close>

theorem C1_classifier_never_throws:
  "(\<exists>r. fst (checkToxicityWithModel E D t w) = Inr r) \<and>
   (\<exists>r. fst (checkToxicityWithModel_App E D b t w) = Inr r) \<and>
   (\<forall>e w'. loadAndPredict E D t w = (Inl e, w') \<longrightarrow>
      checkToxicityWithModel E D t w =
        (Inr \<lparr>isToxic = (\<exists>word \<in> set TOXIC_WORDS. sublist word (toLowerCase t)),
              toxicityScore = Num 0\<rparr>, w') \<and>
      checkToxicityWithModel_App E D True t w =
        (Inr \<lparr>isToxic = (\<exists>word \<in> set TOXIC_WORDS. sublist word (toLowerCase t)),
              toxicityScore = Num 0\<rparr>, w')) \<and>
   checkToxicityWithModel_App E D False t w =
     (Inr \<lparr>isToxic = (\<exists>word \<in> set TOXIC_WORDS. sublist word (toLowerCase t)),
           toxicityScore = Num 0\<rparr>, w)"
proof (intro conjI allI impI)
  show "\<exists>r. fst (checkToxicityWithModel E D t w) = Inr r"
    by (rule checkToxicityWithModel_returns)
  show "\<exists>r. fst (checkToxicityWithModel_App E D b t w) = Inr r"
    by (rule checkToxicityWithModel_App_returns)
qed (simp_all add: checkToxicityWithModel_def checkToxicityWithModel_App_def
       checkToxicityFallback_iff)

theorem C1_classifier_never_throws_witness:
  "checkToxicityWithModel offline example_dictionary ''This is STUPID'' initial_world =
     (Inr \<lparr>isToxic = True, toxicityScore = Num 0\<rparr>, initial_world\<lparr>loadCalls := 1\<rparr>) \<and>
   checkToxicityWithModel_App offline example_dictionary False ''Nice video'' initial_world =
     (Inr \<lparr>isToxic = False, toxicityScore = Num 0\<rparr>, initial_world)"
proof -
  have "checkToxicityFallback ''This is STUPID'' = True"
    by code_simp
  then have a: "(\<exists>word \<in> set TOXIC_WORDS. sublist word (toLowerCase ''This is STUPID'')) = True"
    by (simp only: checkToxicityFallback_iff)
  have "checkToxicityFallback ''Nice video'' = False"
    by code_simp
  then have b: "(\<exists>word \<in> set TOXIC_WORDS. sublist word (toLowerCase ''Nice video'')) = False"
    by (simp only: checkToxicityFallback_iff)
  from C1_classifier_never_throws [of offline example_dictionary "''This is STUPID''"
      initial_world False]
  have "checkToxicityWithModel offline example_dictionary ''This is STUPID'' initial_world =
     (Inr \<lparr>isToxic = True, toxicityScore = Num 0\<rparr>, initial_world\<lparr>loadCalls := 1\<rparr>)"
    unfolding a using loadAndPredict_offline [of example_dictionary "''This is STUPID''"]
    by blast
  moreover
  from C1_classifier_never_throws [of offline example_dictionary "''Nice video''"
      initial_world False]
  have "checkToxicityWithModel_App offline example_dictionary False ''Nice video'' initial_world =
     (Inr \<lparr>isToxic = False, toxicityScore = Num 0\<rparr>, initial_world)"
    unfolding b by blast
  ultimately show ?thesis
    by (rule conjI)
qed

text \<open>
  \<^bold>\<open>C4.\<close> When the model in use returns an output vector \<open>v\<close> for the encoded text, the
  score of the result is \<open>v[1] * 100\<close> and the result is toxic exactly when the score
  is greater than 50. A score of exactly 50 gives \<open>isToxic = False\<close>. Numbers are reals
  here, so the product is the exact one.
\<close>

theorem C4_score_and_threshold:
  assumes "model_in_use E w = Some m" and "predict m [encode D t] = Inr v"
  shows "fst (checkToxicityWithModel E D t w) =
           Inr \<lparr>isToxic = js_gt (js_times (js_index v 1) (Num 100)) (Num 50),
                toxicityScore = js_times (js_index v 1) (Num 100)\<rparr> \<and>
         fst (checkToxicityWithModel_App E D True t w) =
           Inr \<lparr>isToxic = js_gt (js_times (js_index v 1) (Num 100)) (Num 50),
                toxicityScore = js_times (js_index v 1) (Num 100)\<rparr> \<and>
         (\<forall>p. 1 < length v \<and> v ! 1 = Num p \<longrightarrow>
            fst (checkToxicityWithModel E D t w) =
              Inr \<lparr>isToxic = (50 < p * 100), toxicityScore = Num (p * 100)\<rparr>) \<and>
         (js_times (js_index v 1) (Num 100) = Num 50 \<longrightarrow>
            fst (checkToxicityWithModel E D t w) =
              Inr \<lparr>isToxic = False, toxicityScore = Num 50\<rparr>)"
  using loadAndPredict_score [OF assms]
  by (auto simp: checkToxicityWithModel_def checkToxicityWithModel_App_def js_index_def
      split: prod.splits sum.splits)

theorem C4_score_and_threshold_witness:
  "fst (checkToxicityWithModel online example_dictionary ''I will kill you'' initial_world) =
     Inr \<lparr>isToxic = True, toxicityScore = Num 90\<rparr> \<and>
   fst (checkToxicityWithModel
          (online\<lparr>loadLayersModel :=
                     \<lambda>k. Inr (LayersModel 2 (\<lambda>input. Inr [Num (1 / 2), Num (1 / 2)]))\<rparr>)
          example_dictionary ''I will kill you'' initial_world) =
     Inr \<lparr>isToxic = False, toxicityScore = Num 50\<rparr>"
proof -
  have m: "model_in_use online initial_world = Some example_model"
    by (simp add: model_in_use_def online_def initial_world_def)
  have p: "predict example_model [encode example_dictionary ''I will kill you''] =
             Inr [Num (1 / 10), Num (9 / 10)]"
    by (simp add: example_model_def)
  have m2: "model_in_use
              (online\<lparr>loadLayersModel :=
                         \<lambda>k. Inr (LayersModel 2 (\<lambda>input. Inr [Num (1 / 2), Num (1 / 2)]))\<rparr>)
              initial_world =
            Some (LayersModel 2 (\<lambda>input. Inr [Num (1 / 2), Num (1 / 2)]))"
    by (simp add: model_in_use_def online_def initial_world_def)
  have p2: "predict (LayersModel 2 (\<lambda>input. Inr [Num (1 / 2), Num (1 / 2)]))
              [encode example_dictionary ''I will kill you''] =
            Inr [Num (1 / 2), Num (1 / 2)]"
    by simp
  from C4_score_and_threshold [OF m p] C4_score_and_threshold [OF m2 p2]
  show ?thesis
    by (simp add: js_index_def)
qed

text \<open>
  \<^bold>\<open>C5\<close>, as the code has it. \<^verbatim>\<open>"".split(' ')\<close> is the array of one empty word, so the
  encoding of the empty text is START, the token of the empty word (UNKNOWN when the
  empty string is no key of the vocabulary) and 19 PAD tokens. When \<^verbatim>\<open>loadAndPredict\<close>
  rejects, or App.tsx has no model, the classification of the empty text is
  \<open>isToxic = False\<close> with score 0.
\<close>

theorem C5_empty_text:
  "encode D '''' = START D # token_of D '''' # replicate 19 (PAD D) \<and>
   (LOOKUP D '''' = None \<longrightarrow> encode D '''' = START D # UNKNOWN D # replicate 19 (PAD D)) \<and>
   (\<forall>e w'. loadAndPredict E D '''' w = (Inl e, w') \<longrightarrow>
      checkToxicityWithModel E D '''' w =
        (Inr \<lparr>isToxic = False, toxicityScore = Num 0\<rparr>, w')) \<and>
   checkToxicityWithModel_App E D False '''' w =
     (Inr \<lparr>isToxic = False, toxicityScore = Num 0\<rparr>, w)"
proof -
  have enc: "encode D '''' = START D # token_of D '''' # replicate 19 (PAD D)"
    by (simp add: encode_def tokenize_array_eq sentence_words_def replace_nonword_def
        toLowerCase_def numeral_eq_Suc)
  have fb: "checkToxicityFallback '''' = False"
    by code_simp
  show ?thesis
    using enc fb
    by (simp add: token_of_def checkToxicityWithModel_def checkToxicityWithModel_App_def)
qed

text \<open>
  The claim as stated fails: with a vocabulary whose control tokens are distinct, the
  encoding of the empty text holds UNKNOWN in its second place and is not START followed
  by twenty PAD tokens.
\<close>

theorem C5_empty_text_counterexample:
  "encode example_dictionary '''' \<noteq>
     START example_dictionary # replicate 20 (PAD example_dictionary) \<and>
   encode example_dictionary '''' ! 1 = UNKNOWN example_dictionary"
  by code_simp

theorem C5_empty_text_witness:
  "encode example_dictionary '''' = 1 # 2 # replicate 19 0 \<and>
   checkToxicityWithModel offline example_dictionary '''' initial_world =
     (Inr \<lparr>isToxic = False, toxicityScore = Num 0\<rparr>, initial_world\<lparr>loadCalls := 1\<rparr>)"
proof -
  have d: "LOOKUP example_dictionary '''' = None"
    by (simp add: example_dictionary_def)
  note c5 = C5_empty_text [of example_dictionary offline initial_world]
  from c5 d have e: "encode example_dictionary '''' =
      START example_dictionary # UNKNOWN example_dictionary #
        replicate 19 (PAD example_dictionary)"
    by blast
  from c5 loadAndPredict_offline [of example_dictionary "''''"]
  have r: "checkToxicityWithModel offline example_dictionary '''' initial_world =
     (Inr \<lparr>isToxic = False, toxicityScore = Num 0\<rparr>, initial_world\<lparr>loadCalls := 1\<rparr>)"
    by blast
  have "START example_dictionary = 1" "UNKNOWN example_dictionary = 2"
    "PAD example_dictionary = 0"
    by (simp_all add: example_dictionary_def)
  with e r show ?thesis
    by simp
qed

section \<open>Properties of the batch analyzer\<close>

lemma length_classify_all: "length (fst (classify_all E D ts w)) = length ts"
proof (induction ts arbitrary: w)
  case Nil
  show ?case by simp
next
  case (Cons t ts)
  obtain r w' where c: "checkToxicityWithModel E D t w = (Inr r, w')"
    using checkToxicityWithModel_returns [of E D t w]
    by (cases "checkToxicityWithModel E D t w") auto
  obtain rs w'' where rs: "classify_all E D ts w' = (rs, w'')"
    by (cases "classify_all E D ts w'") auto
  show ?case
    using Cons.IH [of w'] by (simp add: c rs)
qed

lemma upt_from_1: "[Suc 0..<Suc (Suc n)] = Suc 0 # map Suc [Suc 0..<Suc n]"
  by (metis map_Suc_upt upt_conv_Cons zero_less_Suc Suc_less_eq)

lemma analyze_loop_step:
  assumes "checkToxicityWithModel E D (comment_text c) w = (Inr r, w')"
    and "length done = length pre"
  shows "analyze_loop E D (pre @ c # rest) (c # rest) done v w =
         analyze_loop E D ((pre @ [c]) @ rest) rest (done @ [analyzed c r])
           (setComments (done @ analyzed c r # map analyzing rest) v) w'"
  using assms by (simp add: Let_def)

lemma analyze_loop_emits:
  "length done = length pre \<Longrightarrow>
   analyze_loop E D (pre @ rest) rest done v w =
     (Inr (),
      v\<lparr>comments :=
           (if rest = [] then comments v
            else done @ map2 analyzed rest (fst (classify_all E D (map comment_text rest) w))),
        emitted := emitted v @
          map (\<lambda>j. done @ map2 analyzed (take j rest)
                             (take j (fst (classify_all E D (map comment_text rest) w))) @
                    map analyzing (drop j rest))
            [1..<Suc (length rest)]\<rparr>,
      snd (classify_all E D (map comment_text rest) w))"
proof (induction rest arbitrary: pre "done" v w)
  case Nil
  show ?case by simp
next
  case (Cons c rest)
  obtain r w' where c: "checkToxicityWithModel E D (comment_text c) w = (Inr r, w')"
    using checkToxicityWithModel_returns [of E D "comment_text c" w]
    by (cases "checkToxicityWithModel E D (comment_text c) w") auto
  obtain rs w'' where rs: "classify_all E D (map comment_text rest) w' = (rs, w'')"
    by (cases "classify_all E D (map comment_text rest) w'") auto
  have all: "classify_all E D (map comment_text (c # rest)) w = (r # rs, w'')"
    by (simp add: c rs)
  define v' where "v' = setComments (done @ analyzed c r # map analyzing rest) v"
  have len: "length (done @ [analyzed c r]) = length (pre @ [c])"
    using Cons.prems by simp
  have "analyze_loop E D (pre @ c # rest) (c # rest) done v w =
        analyze_loop E D ((pre @ [c]) @ rest) rest (done @ [analyzed c r]) v' w'"
    unfolding v'_def by (rule analyze_loop_step [OF c Cons.prems])
  also have "\<dots> =
     (Inr (),
      v'\<lparr>comments := (if rest = [] then comments v'
                      else (done @ [analyzed c r]) @ map2 analyzed rest rs),
         emitted := emitted v' @
          map (\<lambda>j. (done @ [analyzed c r]) @ map2 analyzed (take j rest) (take j rs) @
                    map analyzing (drop j rest))
            [1..<Suc (length rest)]\<rparr>,
      w'')"
    using Cons.IH [OF len, of v' w'] by (simp add: rs)
  also have "v'\<lparr>comments := (if rest = [] then comments v'
                      else (done @ [analyzed c r]) @ map2 analyzed rest rs),
         emitted := emitted v' @
          map (\<lambda>j. (done @ [analyzed c r]) @ map2 analyzed (take j rest) (take j rs) @
                    map analyzing (drop j rest))
            [1..<Suc (length rest)]\<rparr> =
      v\<lparr>comments := done @ map2 analyzed (c # rest) (r # rs),
        emitted := emitted v @
          map (\<lambda>j. done @ map2 analyzed (take j (c # rest)) (take j (r # rs)) @
                    map analyzing (drop j (c # rest)))
            [1..<Suc (length (c # rest))]\<rparr>"
    unfolding v'_def setComments_def
    by (simp add: upt_from_1 o_def del: upt_Suc)
  finally show ?case
    using all by (simp del: upt_Suc classify_all.simps)
qed

lemma snapshot_0: "snapshot items rs 0 = map analyzing items"
  by (simp add: snapshot_def)

lemma snapshot_all:
  "length rs = length items \<Longrightarrow> snapshot items rs (length items) = map2 analyzed items rs"
  by (simp add: snapshot_def)

lemma length_snapshot:
  "length rs = length items \<Longrightarrow> length (snapshot items rs k) = length items"
  by (simp add: snapshot_def)

lemma snapshot_nth_done:
  "length rs = length items \<Longrightarrow> i < k \<Longrightarrow> i < length items \<Longrightarrow>
   snapshot items rs k ! i = analyzed (items ! i) (rs ! i)"
  by (simp add: snapshot_def nth_append)

lemma snapshot_nth_todo:
  "length rs = length items \<Longrightarrow> k \<le> i \<Longrightarrow> i < length items \<Longrightarrow>
   snapshot items rs k ! i = analyzing (items ! i)"
  by (simp add: snapshot_def nth_append min_def)

lemma loadComments_run:
  assumes "fetchYouTubeComments E videoId = Inr items"
  shows "loadComments E D videoId v w =
     (v\<lparr>comments := snapshot items (fst (classify_all E D (map comment_text items) w)) (length items),
        loading := False,
        emitted := emitted v @
           map (snapshot items (fst (classify_all E D (map comment_text items) w)))
             [0..<Suc (length items)]\<rparr>,
      snd (classify_all E D (map comment_text items) w))"
proof -
  let ?rs = "fst (classify_all E D (map comment_text items) w)"
  have len: "length ?rs = length items"
    using length_classify_all [of E D "map comment_text items" w] by simp
  have upt: "[0..<Suc (length items)] = 0 # [Suc 0..<Suc (length items)]"
    by (simp add: upt_conv_Cons del: upt_Suc)
  define v2 where "v2 = setComments (map analyzing items) (v\<lparr>loading := True\<rparr>)"
  have loop: "analyze_loop E D items items [] v2 w =
     (Inr (),
      v2\<lparr>comments := (if items = [] then comments v2 else map2 analyzed items ?rs),
         emitted := emitted v2 @ map (snapshot items ?rs) [Suc 0..<Suc (length items)]\<rparr>,
      snd (classify_all E D (map comment_text items) w))"
    using analyze_loop_emits [of "[]" "[]" E D items v2 w]
    by (simp add: snapshot_def del: upt_Suc)
  have "loadComments E D videoId v w =
     (case analyze_loop E D items items [] v2 w of
        (Inl e, v3, w') \<Rightarrow>
          (v3\<lparr>error := Some ''Failed to load comments. Please try again.'',
              loading := False\<rparr>, w')
      | (Inr u, v3, w') \<Rightarrow> (v3\<lparr>loading := False\<rparr>, w'))"
    by (simp add: loadComments_def assms v2_def Let_def)
  also have "\<dots> =
     (v2\<lparr>comments := (if items = [] then comments v2 else map2 analyzed items ?rs),
         emitted := emitted v2 @ map (snapshot items ?rs) [Suc 0..<Suc (length items)],
         loading := False\<rparr>,
      snd (classify_all E D (map comment_text items) w))"
    by (simp add: loop del: upt_Suc)
  also have "v2\<lparr>comments := (if items = [] then comments v2 else map2 analyzed items ?rs),
         emitted := emitted v2 @ map (snapshot items ?rs) [Suc 0..<Suc (length items)],
         loading := False\<rparr> =
      v\<lparr>comments := snapshot items ?rs (length items), loading := False,
        emitted := emitted v @ map (snapshot items ?rs) [0..<Suc (length items)]\<rparr>"
    by (simp add: v2_def setComments_def upt snapshot_0 snapshot_all [OF len] del: upt_Suc)
  finally show ?thesis .
qed

lemma classify_all_nth:
  "i < length ts \<Longrightarrow>
   fst (checkToxicityWithModel E D (ts ! i) (snd (classify_all E D (take i ts) w))) =
     Inr (fst (classify_all E D ts w) ! i)"
proof (induction ts arbitrary: i w)
  case Nil
  then show ?case by simp
next
  case (Cons t ts)
  obtain r w' where c: "checkToxicityWithModel E D t w = (Inr r, w')"
    using checkToxicityWithModel_returns [of E D t w]
    by (cases "checkToxicityWithModel E D t w") auto
  obtain rs w'' where rs: "classify_all E D ts w' = (rs, w'')"
    by (cases "classify_all E D ts w'") auto
  show ?case
  proof (cases i)
    case 0
    then show ?thesis by (simp add: c rs)
  next
    case (Suc j)
    obtain rs' w3 where rs': "classify_all E D (take j ts) w' = (rs', w3)"
      by (cases "classify_all E D (take j ts) w'") auto
    from Suc Cons.prems have "j < length ts" by simp
    from Cons.IH [OF this, of w'] show ?thesis
      by (simp add: Suc c rs rs')
  qed
qed


lemma loadComments_emitted:
  assumes fetch: "fetchYouTubeComments E videoId = Inr items"
    and run: "loadComments E D videoId initial_view w = (v', w')"
    and seq: "classify_all E D (map comment_text items) w = (results, w'')"
  shows "length results = length items"
    and "w' = w''"
    and "emitted v' = map (snapshot items results) [0..<Suc (length items)]"
    and "comments v' = map2 analyzed items results"
    and "error v' = None"
    and "loading v' = False"
proof -
  show len: "length results = length items"
    using length_classify_all [of E D "map comment_text items" w] by (simp add: seq)
  from loadComments_run [OF fetch, of D initial_view w] run seq
  have v': "v' = initial_view\<lparr>comments := snapshot items results (length items),
                loading := False,
                emitted := emitted initial_view @
                  map (snapshot items results) [0..<Suc (length items)]\<rparr>"
    and w': "w' = w''"
    by simp_all
  show "w' = w''" by (rule w')
  show "emitted v' = map (snapshot items results) [0..<Suc (length items)]"
    by (simp add: v' initial_view_def del: upt_Suc)
  show "comments v' = map2 analyzed items results"
    by (simp add: v' snapshot_all [OF len])
  show "error v' = None" "loading v' = False"
    by (simp_all add: v' initial_view_def)
qed

lemma emitted_nth:
  assumes "fetchYouTubeComments E videoId = Inr items"
    and "loadComments E D videoId initial_view w = (v', w')"
    and "classify_all E D (map comment_text items) w = (results, w'')"
    and "k \<le> length items"
  shows "emitted v' ! k = snapshot items results k"
proof -
  have "k < length [0..<Suc (length items)]"
    using assms(4) by simp
  then have "map (snapshot items results) [0..<Suc (length items)] ! k =
             snapshot items results ([0..<Suc (length items)] ! k)"
    by (rule nth_map)
  also have "[0..<Suc (length items)] ! k = k"
    using assms(4) by (simp add: nth_upt del: upt_Suc)
  finally show ?thesis
    by (simp only: loadComments_emitted(3) [OF assms(1-3)])
qed

lemma truncate_analyzed: "YouTubeComment.truncate (analyzed c r) = c"
  by (simp add: analyzed_def YouTubeComment.truncate_def)

lemma truncate_analyzing: "YouTubeComment.truncate (analyzing c) = c"
  by (simp add: analyzing_def YouTubeComment.truncate_def)

text \<open>
  \<^bold>\<open>C3\<close>, as the code has it. When the fetch yields \<open>n\<close> items, \<^verbatim>\<open>loadComments\<close>
  classifies them one after the other in the order of the input: the result of item
  \<open>i\<close> is what \<^verbatim>\<open>checkToxicityWithModel\<close> returns in the state left by the items before
  it. \<^verbatim>\<open>setComments\<close> is called exactly \<open>n + 1\<close> times: once before the loop and once
  after each item. The \<open>k\<close>-th value, for \<open>k\<close> from 0 to \<open>n\<close>, holds every item in its
  place (\<open>YouTubeComment.truncate\<close> gives the fetched fields of an entry); the items below
  \<open>k\<close> carry the \<open>isToxic\<close> and the \<open>toxicityScore\<close> of their own results with
  \<open>isAnalyzing = false\<close>, and the items from \<open>k\<close> on have \<open>isAnalyzing = true\<close> and no
  score. The final list is the last value: no item is analyzing, and no error is set.
\<close>

theorem C3_batch_sequential_snapshots:
  assumes fetch: "fetchYouTubeComments E videoId = Inr items"
    and run: "loadComments E D videoId initial_view w = (v', w')"
    and seq: "classify_all E D (map comment_text items) w = (results, w'')"
  shows "length results = length items \<and> w' = w'' \<and>
    (\<forall>i<length items.
       fst (checkToxicityWithModel E D (comment_text (items ! i))
              (snd (classify_all E D (map comment_text (take i items)) w))) =
         Inr (results ! i)) \<and>
    length (emitted v') = Suc (length items) \<and>
    (\<forall>k \<le> length items.
       length (emitted v' ! k) = length items \<and>
       (\<forall>i<k. YouTubeComment.truncate (emitted v' ! k ! i) = items ! i \<and>
              isToxic_c (emitted v' ! k ! i) = isToxic (results ! i) \<and>
              toxicityScore_c (emitted v' ! k ! i) = Some (toxicityScore (results ! i)) \<and>
              isAnalyzing (emitted v' ! k ! i) = Some False) \<and>
       (\<forall>i. k \<le> i \<and> i < length items \<longrightarrow>
              YouTubeComment.truncate (emitted v' ! k ! i) = items ! i \<and>
              isAnalyzing (emitted v' ! k ! i) = Some True \<and>
              toxicityScore_c (emitted v' ! k ! i) = None)) \<and>
    comments v' = emitted v' ! length items \<and>
    (\<forall>c \<in> set (comments v'). isAnalyzing c = Some False) \<and>
    error v' = None \<and> loading v' = False"
proof -
  note facts = loadComments_emitted [OF fetch run seq]
  note len = facts(1)
  have nth: "emitted v' ! k = snapshot items results k" if "k \<le> length items" for k
    using emitted_nth [OF fetch run seq that] .
  have seq_i: "fst (checkToxicityWithModel E D (comment_text (items ! i))
              (snd (classify_all E D (map comment_text (take i items)) w))) =
         Inr (results ! i)" if "i < length items" for i
    using classify_all_nth [of i "map comment_text items" E D w] that
    by (simp add: seq take_map)
  have final: "isAnalyzing c = Some False" if "c \<in> set (comments v')" for c
    using that by (auto simp: facts(4) analyzed_def dest!: set_zip_leftD [rotated -1] in_set_zipE)
  have last: "comments v' = emitted v' ! length items"
    by (simp add: nth facts(4) snapshot_all [OF len])
  have snap: "length (emitted v' ! k) = length items \<and>
       (\<forall>i<k. YouTubeComment.truncate (emitted v' ! k ! i) = items ! i \<and>
              isToxic_c (emitted v' ! k ! i) = isToxic (results ! i) \<and>
              toxicityScore_c (emitted v' ! k ! i) = Some (toxicityScore (results ! i)) \<and>
              isAnalyzing (emitted v' ! k ! i) = Some False) \<and>
       (\<forall>i. k \<le> i \<and> i < length items \<longrightarrow>
              YouTubeComment.truncate (emitted v' ! k ! i) = items ! i \<and>
              isAnalyzing (emitted v' ! k ! i) = Some True \<and>
              toxicityScore_c (emitted v' ! k ! i) = None)"
    if k: "k \<le> length items" for k
  proof (intro conjI allI impI)
    show "length (emitted v' ! k) = length items"
      by (simp add: nth [OF k] length_snapshot [OF len])
  next
    fix i assume i: "i < k"
    with k have "emitted v' ! k ! i = analyzed (items ! i) (results ! i)"
      by (simp add: nth [OF k] snapshot_nth_done [OF len])
    then show "YouTubeComment.truncate (emitted v' ! k ! i) = items ! i"
      "isToxic_c (emitted v' ! k ! i) = isToxic (results ! i)"
      "toxicityScore_c (emitted v' ! k ! i) = Some (toxicityScore (results ! i))"
      "isAnalyzing (emitted v' ! k ! i) = Some False"
      by (simp_all add: truncate_analyzed) (simp_all add: analyzed_def)
  next
    fix i assume i: "k \<le> i \<and> i < length items"
    then have "emitted v' ! k ! i = analyzing (items ! i)"
      by (simp add: nth [OF k] snapshot_nth_todo [OF len])
    then show "YouTubeComment.truncate (emitted v' ! k ! i) = items ! i"
      "isAnalyzing (emitted v' ! k ! i) = Some True"
      "toxicityScore_c (emitted v' ! k ! i) = None"
      by (simp_all add: truncate_analyzing) (simp_all add: analyzing_def)
  qed
  have n: "length (emitted v') = Suc (length items)"
    by (simp add: facts(3) del: upt_Suc)
  show ?thesis
    using facts(1,2,5,6) seq_i final snap last n by blast
qed

text \<open>
  The claim as stated fails on the number of values: for two items three values are
  passed to \<^verbatim>\<open>setComments\<close>, the first of them before any item is classified.
\<close>

theorem C3_snapshot_count_counterexample:
  "length example_comments = 2 \<and>
   length (emitted (fst (loadComments offline example_dictionary ''video'' initial_view
                           initial_world))) = 3 \<and>
   isAnalyzing (emitted (fst (loadComments offline example_dictionary ''video'' initial_view
                                initial_world)) ! 0 ! 0) = Some True"
  by code_simp

text \<open>
  \<^bold>\<open>C10.\<close> In every value passed to \<^verbatim>\<open>setComments\<close>, the initial one (index 0)
  included, every item that is not yet analyzed has \<open>isToxic = false\<close> and
  \<open>isAnalyzing = true\<close>.
\<close>

theorem C10_unprocessed_items_not_toxic:
  assumes fetch: "fetchYouTubeComments E videoId = Inr items"
    and run: "loadComments E D videoId initial_view w = (v', w')"
  shows "length (emitted v') = Suc (length items) \<and>
    (\<forall>k \<le> length items. \<forall>i. k \<le> i \<and> i < length items \<longrightarrow>
       isToxic_c (emitted v' ! k ! i) = False \<and>
       isAnalyzing (emitted v' ! k ! i) = Some True)"
proof -
  obtain results w'' where seq: "classify_all E D (map comment_text items) w = (results, w'')"
    by (cases "classify_all E D (map comment_text items) w") auto
  note facts = loadComments_emitted [OF fetch run seq]
  note len = facts(1)
  have "isToxic_c (emitted v' ! k ! i) = False \<and> isAnalyzing (emitted v' ! k ! i) = Some True"
    if "k \<le> length items" "k \<le> i" "i < length items" for k i
    using that
    by (simp add: emitted_nth [OF fetch run seq that(1)] snapshot_nth_todo [OF len]
        analyzing_def)
  moreover have "length (emitted v') = Suc (length items)"
    by (simp add: facts(3) del: upt_Suc)
  ultimately show ?thesis
    by blast
qed


lemma classify_all_offline_example:
  "fst (classify_all offline example_dictionary (map comment_text example_comments)
          initial_world) =
     [\<lparr>isToxic = True, toxicityScore = Num 0\<rparr>, \<lparr>isToxic = False, toxicityScore = Num 0\<rparr>]"
  by code_simp

theorem C3_batch_sequential_snapshots_witness:
  "length (emitted (fst (loadComments offline example_dictionary ''video'' initial_view
                           initial_world))) = 3 \<and>
   isToxic_c (emitted (fst (loadComments offline example_dictionary ''video'' initial_view
                              initial_world)) ! 1 ! 0) = True \<and>
   toxicityScore_c (emitted (fst (loadComments offline example_dictionary ''video''
                                    initial_view initial_world)) ! 1 ! 0) = Some (Num 0) \<and>
   isAnalyzing (emitted (fst (loadComments offline example_dictionary ''video'' initial_view
                                initial_world)) ! 1 ! 1) = Some True \<and>
   isAnalyzing (emitted (fst (loadComments offline example_dictionary ''video'' initial_view
                                initial_world)) ! 2 ! 1) = Some False \<and>
   isToxic_c (emitted (fst (loadComments offline example_dictionary ''video'' initial_view
                              initial_world)) ! 2 ! 1) = False \<and>
   error (fst (loadComments offline example_dictionary ''video'' initial_view
                 initial_world)) = None"
proof -
  have fetch: "fetchYouTubeComments offline ''video'' = Inr example_comments"
    by (simp add: offline_def)
  have run: "loadComments offline example_dictionary ''video'' initial_view initial_world =
      (fst (loadComments offline example_dictionary ''video'' initial_view initial_world),
       snd (loadComments offline example_dictionary ''video'' initial_view initial_world))"
    by simp
  have seq: "classify_all offline example_dictionary (map comment_text example_comments)
               initial_world =
      ([\<lparr>isToxic = True, toxicityScore = Num 0\<rparr>, \<lparr>isToxic = False, toxicityScore = Num 0\<rparr>],
       snd (classify_all offline example_dictionary (map comment_text example_comments)
              initial_world))"
    using classify_all_offline_example by (simp add: prod_eq_iff)
  have n: "length example_comments = 2"
    by (simp add: example_comments_def)
  from C3_batch_sequential_snapshots [OF fetch run seq] show ?thesis
    by (simp add: n)
qed

theorem C10_unprocessed_items_not_toxic_witness:
  "isToxic_c (emitted (fst (loadComments offline example_dictionary ''video'' initial_view
                              initial_world)) ! 0 ! 0) = False \<and>
   isAnalyzing (emitted (fst (loadComments offline example_dictionary ''video'' initial_view
                                initial_world)) ! 1 ! 1) = Some True \<and>
   length (emitted (fst (loadComments offline example_dictionary ''video'' initial_view
                           initial_world))) = 3"
proof -
  have fetch: "fetchYouTubeComments offline ''video'' = Inr example_comments"
    by (simp add: offline_def)
  have run: "loadComments offline example_dictionary ''video'' initial_view initial_world =
      (fst (loadComments offline example_dictionary ''video'' initial_view initial_world),
       snd (loadComments offline example_dictionary ''video'' initial_view initial_world))"
    by simp
  have n: "length example_comments = 2"
    by (simp add: example_comments_def)
  from C10_unprocessed_items_not_toxic [OF fetch run] show ?thesis
    by (simp add: n)
qed

section \<open>Properties of the model handle\<close>

lemma loadAndPredict_resume_loadCalls:
  "loadCalls (snd (loadAndPredict_resume E D t k w)) = loadCalls w"
  by (simp add: loadAndPredict_resume_def loadAndPredict_rest_def tokenize_def tensor2d_def
      predict_dataSync_def split: sum.splits prod.splits)

lemma loadAndPredict_no_reload:
  "model w = Some m \<Longrightarrow>
   loadCalls (snd (loadAndPredict E D t w)) = loadCalls w \<and>
   model (snd (loadAndPredict E D t w)) = Some m"
  by (simp add: loadAndPredict_loaded split: sum.splits)

lemma checkToxicityWithModel_App_no_load:
  "snd (checkToxicityWithModel_App E D False t w) = w"
  by (simp add: checkToxicityWithModel_App_def)

lemma loadModel_failed:
  assumes "model w = None" and "loadLayersModel E (loadCalls w) = Inl e"
  shows "model_app (fst (loadModel E D initial_app w)) = False \<and>
         modelError (fst (loadModel E D initial_app w)) \<noteq> None \<and>
         loadCalls (snd (loadModel E D initial_app w)) \<le> loadCalls w + 1"
  using assms
  by (simp add: loadModel_def initial_app_def loadAndPredict_unloaded Let_def
      split: sum.splits)

text \<open>
  \<^bold>\<open>C7.\<close> The code loads the model more than once. Two calls of \<^verbatim>\<open>loadAndPredict\<close> that
  start before the first load has settled both find \<^verbatim>\<open>model\<close> undefined, and each calls
  \<^verbatim>\<open>tf.loadLayersModel\<close>: two loads, whatever the loads yield. And when a load fails,
  \<^verbatim>\<open>model\<close> stays undefined, so the next call, made after the first one has ended,
  loads again.
\<close>

theorem C7_duplicate_loads:
  "loadAndPredict_start D t1 initial_world = (Inr 0, initial_world\<lparr>loadCalls := 1\<rparr>) \<and>
   loadAndPredict_start D t2 (initial_world\<lparr>loadCalls := 1\<rparr>) =
     (Inr 1, initial_world\<lparr>loadCalls := 2\<rparr>) \<and>
   loadCalls (snd (loadAndPredict_resume E D t2 1
                (snd (loadAndPredict_resume E D t1 0 (initial_world\<lparr>loadCalls := 2\<rparr>))))) = 2 \<and>
   loadCalls (snd (loadAndPredict offline D t2 (snd (loadAndPredict offline D t1 initial_world))))
     = 2"
  by (simp add: loadAndPredict_start_def initial_world_def loadAndPredict_resume_loadCalls
      loadAndPredict_unloaded offline_def)

text \<open>
  \<^bold>\<open>C8.\<close> With the model out of reach, the comments view attempts one load per comment:
  its \<^verbatim>\<open>checkToxicityWithModel\<close> calls \<^verbatim>\<open>loadAndPredict\<close> for every comment, and
  \<^verbatim>\<open>loadAndPredict\<close> finds \<^verbatim>\<open>model\<close> undefined each time. Both comments get the keyword
  fallback, and two loads have been attempted. (App.tsx does not load again: see
  \<open>checkToxicityWithModel_App_no_load\<close>.)
\<close>

theorem C8_reload_after_failure:
  "loadCalls (snd (loadComments offline example_dictionary ''video'' initial_view
                     initial_world)) = 2 \<and>
   map toxicityScore_c
     (comments (fst (loadComments offline example_dictionary ''video'' initial_view
                       initial_world))) = [Some (Num 0), Some (Num 0)]"
  by code_simp

text \<open>
  \<^bold>\<open>C9\<close>, as the code has it. \<^verbatim>\<open>loadAndPredict\<close> disposes no tensor. A call that
  reaches \<^verbatim>\<open>tokenize\<close> leaves the tensor of the encoded input allocated, and a call whose
  inference succeeds leaves the output tensor allocated too. With the model already
  loaded, the number of live tensors grows by two with each successful call and by one
  when the inference throws. The call that loads the model adds the weight tensors of
  the model on top of that, and a call whose load fails adds nothing.
\<close>

theorem C9_tensors_not_released:
  "numTensors (snd (loadAndPredict E D t w)) =
     numTensors w +
       (case model w of
          Some m \<Rightarrow> (case predict m [encode D t] of Inl e \<Rightarrow> 1 | Inr v \<Rightarrow> 2)
        | None \<Rightarrow>
            (case loadLayersModel E (loadCalls w) of
               Inl e \<Rightarrow> 0
             | Inr m \<Rightarrow>
                 weightTensors m +
                   (case predict m [encode D t] of Inl e \<Rightarrow> 1 | Inr v \<Rightarrow> 2)))"
proof (cases "model w")
  case None
  then show ?thesis
    by (simp add: loadAndPredict_unloaded split: sum.splits)
next
  case (Some m)
  then show ?thesis
    by (simp add: loadAndPredict_loaded split: sum.splits)
qed

text \<open>
  The claim as stated fails. With a model of two weight tensors, four tensors are live
  after the first successful call (the weights, the input and the output), and six after
  the second: the input and the output of every call stay allocated.
\<close>

theorem C9_tensors_counterexample:
  "numTensors (snd (loadAndPredict online example_dictionary ''Nice video'' initial_world)) = 4 \<and>
   numTensors (snd (loadAndPredict online example_dictionary ''Nice video''
                (snd (loadAndPredict online example_dictionary ''Nice video'' initial_world))))
     = 6"
  by code_simp

theorem C9_tensors_not_released_witness:
  "numTensors
     (snd (loadAndPredict
             (online\<lparr>loadLayersModel := \<lambda>k. Inr (LayersModel 2 (\<lambda>input. Inl PredictFailed))\<rparr>)
             example_dictionary ''Nice video'' initial_world)) = 3 \<and>
   numTensors (snd (loadAndPredict offline example_dictionary ''Nice video'' initial_world)) = 0"
proof -
  from C9_tensors_not_released
    [of "online\<lparr>loadLayersModel := \<lambda>k. Inr (LayersModel 2 (\<lambda>input. Inl PredictFailed))\<rparr>"
        example_dictionary "''Nice video''" initial_world]
    C9_tensors_not_released [of offline example_dictionary "''Nice video''" initial_world]
  show ?thesis
    by (simp add: initial_world_def online_def offline_def)
qed

end
